theory Spec2Isabelle
  imports Main
begin

section \<open>Data model\<close>

text \<open>
  The relational store of \<^verbatim>\<open>app/models/database_models.py\<close>: three tables, each a list
  of rows in storage order. A \<^verbatim>\<open>DateTime\<close> is an \<open>int\<close> (seconds), a nullable column
  an \<open>option\<close>. Fields whose Python name is used by more than one class carry the
  initial of their class (\<open>u_id\<close>, \<open>p_id\<close>, \<open>s_id\<close>, ...).
\<close>

datatype UserRole = USER | ADMIN | HR | CANDIDATE

fun role_value :: "UserRole \<Rightarrow> string" where
  "role_value USER = ''user''"
| "role_value ADMIN = ''admin''"
| "role_value HR = ''hr''"
| "role_value CANDIDATE = ''candidate''"

record Permission =
  p_id :: int
  p_name :: string
  description :: "string option"

text \<open>
  The relationship \<^verbatim>\<open>User.permissions\<close> (through the association table
  \<^verbatim>\<open>user_permissions\<close>) is the list of Permission rows attached to the user. The
  relationship \<^verbatim>\<open>User.sessions\<close> is the foreign key \<open>user_id\<close> of the session rows.
\<close>

record User =
  u_id :: int
  email :: string
  u_name :: string
  phone :: "string option"
  hashed_password :: string
  role :: UserRole
  is_active :: bool
  is_email_verified :: bool
  firebase_uid :: "string option"
  u_created_at :: int
  updated_at :: int
  last_login :: "int option"
  email_verification_token :: "string option"
  email_verification_expire :: "int option"
  reset_password_token :: "string option"
  reset_password_expire :: "int option"
  permissions :: "Permission list"

record UserSession =
  s_id :: int
  user_id :: int
  s_refresh_token :: string
  expires_at :: int
  s_created_at :: int
  ip_address :: "string option"
  user_agent :: "string option"

text \<open>The database: the three tables and their auto-increment counters.\<close>

record db =
  users_table :: "User list"
  permissions_table :: "Permission list"
  user_sessions_table :: "UserSession list"
  users_seq :: int
  permissions_seq :: int
  user_sessions_seq :: int

text \<open>Request and response bodies of \<^verbatim>\<open>app/models/schemas.py\<close>. A \<open>UserCreate\<close> value
  is one that has passed the pydantic validators; \<open>c_role\<close> defaults to \<open>USER\<close> when the
  request omits it.\<close>

record UserCreate =
  c_email :: string
  c_name :: string
  c_phone :: "string option"
  c_role :: UserRole
  c_password :: string

record Token =
  access_token :: string
  t_refresh_token :: "string option"
  token_type :: string

text \<open>A raised exception is a value: \<open>HTTPException status_code detail\<close>, or the
  \<^verbatim>\<open>AttributeError\<close> of an attribute read on \<^verbatim>\<open>None\<close>.\<close>

datatype error = HTTPException nat string | AttributeError

text \<open>The status of the HTTP answer; an exception that is not an \<open>HTTPException\<close> is
  answered with status 500.\<close>

definition status_code :: "error \<Rightarrow> nat" where
  "status_code e = (case e of HTTPException c _ \<Rightarrow> c | AttributeError \<Rightarrow> 500)"

abbreviation HTTP_400_BAD_REQUEST :: nat where "HTTP_400_BAD_REQUEST \<equiv> 400"
abbreviation HTTP_401_UNAUTHORIZED :: nat where "HTTP_401_UNAUTHORIZED \<equiv> 401"
abbreviation HTTP_403_FORBIDDEN :: nat where "HTTP_403_FORBIDDEN \<equiv> 403"
abbreviation HTTP_404_NOT_FOUND :: nat where "HTTP_404_NOT_FOUND \<equiv> 404"

text \<open>
  The claims of a decoded token: a Python dict with string keys, as an association list
  (the first binding of a key is its value). \<open>dict_get\<close> is \<^verbatim>\<open>payload.get(key)\<close>, which
  is \<^verbatim>\<open>None\<close> for an absent key.
\<close>

datatype claim = JNull | JStr string | JInt int

type_synonym payload = "(string \<times> claim) list"

definition dict_get :: "payload \<Rightarrow> string \<Rightarrow> claim" where
  "dict_get payload key = (case map_of payload key of None \<Rightarrow> JNull | Some v \<Rightarrow> v)"

text \<open>
  The module \<^verbatim>\<open>app/auth/security.py\<close> and the Firebase client are collaborators of the
  routers; their functions are parameters of the model. \<open>decode_token\<close> yields \<open>None\<close>
  for a token it rejects.
\<close>

record security =
  decode_token :: "string \<Rightarrow> payload option"
  create_access_token :: "payload \<Rightarrow> string"
  create_refresh_token :: "payload \<Rightarrow> string"
  get_password_hash :: "string \<Rightarrow> string"
  verify_password :: "string \<Rightarrow> string \<Rightarrow> bool"
  hash_token :: "string \<Rightarrow> string"
  create_firebase_user :: "string \<Rightarrow> string \<Rightarrow> string \<Rightarrow> string option"

section \<open>Queries and row updates\<close>

text \<open>\<^verbatim>\<open>Query.first()\<close>: the first row of the result, or \<^verbatim>\<open>None\<close>.\<close>

definition first :: "'a list \<Rightarrow> 'a option" where
  "first rows = (case rows of [] \<Rightarrow> None | r # _ \<Rightarrow> Some r)"

text \<open>
  A commit after attributes of a loaded user were assigned: the unit of work writes the
  row with that primary key. Deleting a user deletes the row with that primary key and,
  by the cascade of \<^verbatim>\<open>User.sessions\<close>, every session whose foreign key is that id.
\<close>

definition update_users_row :: "int \<Rightarrow> (User \<Rightarrow> User) \<Rightarrow> db \<Rightarrow> db" where
  "update_users_row pk f d =
     d\<lparr>users_table := map (\<lambda>u. if u_id u = pk then f u else u) (users_table d)\<rparr>"

definition delete_users_row :: "int \<Rightarrow> db \<Rightarrow> db" where
  "delete_users_row pk d =
     d\<lparr>users_table := filter (\<lambda>u. u_id u \<noteq> pk) (users_table d),
       user_sessions_table := filter (\<lambda>s. user_id s \<noteq> pk) (user_sessions_table d)\<rparr>"

definition add_session :: "UserSession \<Rightarrow> db \<Rightarrow> db" where
  "add_session s d =
     d\<lparr>user_sessions_table := user_sessions_table d @ [s\<lparr>s_id := user_sessions_seq d\<rparr>],
       user_sessions_seq := user_sessions_seq d + 1\<rparr>"

definition days :: "int \<Rightarrow> int" where
  "days n = n * 86400"

definition hours :: "int \<Rightarrow> int" where
  "hours n = n * 3600"

section \<open>Dependencies (app/auth/dependencies.py)\<close>

definition credentials_exception :: error where
  "credentials_exception = HTTPException HTTP_401_UNAUTHORIZED ''Could not validate credentials''"

text \<open>The filter \<^verbatim>\<open>User.email == email\<close> compares the column with the claim's value: a
  row matches when the claim is the string stored in the column.\<close>

definition get_current_user :: "security \<Rightarrow> string \<Rightarrow> db \<Rightarrow> error + User" where
  "get_current_user sec token d =
     (case decode_token sec token of
        None \<Rightarrow> Inl credentials_exception
      | Some payload \<Rightarrow>
          if dict_get payload ''type'' \<noteq> JStr ''access'' then Inl credentials_exception
          else
            let email_claim = dict_get payload ''sub'' in
            if email_claim = JNull then Inl credentials_exception
            else
              (case first (filter (\<lambda>u. JStr (email u) = email_claim) (users_table d)) of
                 None \<Rightarrow> Inl credentials_exception
               | Some user \<Rightarrow>
                   if \<not> is_active user
                   then Inl (HTTPException HTTP_403_FORBIDDEN ''User account is disabled'')
                   else Inr user))"

definition get_current_active_user :: "security \<Rightarrow> string \<Rightarrow> db \<Rightarrow> error + User" where
  "get_current_active_user sec token d =
     (case get_current_user sec token d of
        Inl e \<Rightarrow> Inl e
      | Inr current_user \<Rightarrow> Inr current_user)"

definition permission_checker :: "string list \<Rightarrow> User \<Rightarrow> error + User" where
  "permission_checker required_permissions current_user =
     (let user_permissions = map p_name (permissions current_user);
          has_permission = list_ex (\<lambda>perm. perm \<in> set user_permissions) required_permissions
      in if \<not> has_permission
         then Inl (HTTPException HTTP_403_FORBIDDEN
                     ''You don't have permission to perform this action'')
         else Inr current_user)"

definition require_permission :: "string list \<Rightarrow> security \<Rightarrow> string \<Rightarrow> db \<Rightarrow> error + User" where
  "require_permission required_permissions sec token d =
     (case get_current_active_user sec token d of
        Inl e \<Rightarrow> Inl e
      | Inr current_user \<Rightarrow> permission_checker required_permissions current_user)"

section \<open>Authentication routes (app/routers/auth.py)\<close>

definition default_permissions :: "(string \<times> string) list" where
  "default_permissions =
     [(''read'', ''Can read data''),
      (''write'', ''Can write data''),
      (''delete'', ''Can delete data''),
      (''manage_users'', ''Can manage users''),
      (''manage_roles'', ''Can manage roles'')]"

text \<open>The loop of \<^verbatim>\<open>init_default_permissions\<close> over a list of (name, description).\<close>

fun add_missing_permissions :: "(string \<times> string) list \<Rightarrow> db \<Rightarrow> db" where
  "add_missing_permissions [] d = d"
| "add_missing_permissions ((n, descr) # rest) d =
     (case first (filter (\<lambda>p. p_name p = n) (permissions_table d)) of
        Some perm \<Rightarrow> add_missing_permissions rest d
      | None \<Rightarrow>
          add_missing_permissions rest
            (d\<lparr>permissions_table := permissions_table d @
                  [\<lparr>p_id = permissions_seq d, p_name = n, description = Some descr\<rparr>],
               permissions_seq := permissions_seq d + 1\<rparr>))"

definition init_default_permissions :: "db \<Rightarrow> db" where
  "init_default_permissions d = add_missing_permissions default_permissions d"

text \<open>
  \<^verbatim>\<open>signup\<close> takes no token: the route has no dependency on \<^verbatim>\<open>get_current_user\<close>.
  \<open>verification_token\<close> is the value drawn by \<^verbatim>\<open>generate_verification_token()\<close> and
  \<open>now\<close> the clock of the request. The permissions are seeded and committed before
  the duplicate check, so the returned database is the seeded one also when the request
  is refused. Sending the verification e-mail touches no table and its failure is caught.
\<close>

definition signup :: "security \<Rightarrow> string \<Rightarrow> UserCreate \<Rightarrow> int \<Rightarrow> db \<Rightarrow> (error + Token) \<times> db" where
  "signup sec verification_token user_data now d0 =
     (let d = init_default_permissions d0 in
      case first (filter (\<lambda>u. email u = c_email user_data) (users_table d)) of
        Some existing_user \<Rightarrow>
          (Inl (HTTPException HTTP_400_BAD_REQUEST ''Email already registered''), d)
      | None \<Rightarrow>
          let user = \<lparr>u_id = users_seq d,
                      email = c_email user_data,
                      u_name = c_name user_data,
                      phone = c_phone user_data,
                      hashed_password = get_password_hash sec (c_password user_data),
                      role = c_role user_data,
                      is_active = True,
                      is_email_verified = False,
                      firebase_uid = None,
                      u_created_at = now,
                      updated_at = now,
                      last_login = None,
                      email_verification_token = Some (hash_token sec verification_token),
                      email_verification_expire = Some (now + hours 24),
                      reset_password_token = None,
                      reset_password_expire = None,
                      permissions = []\<rparr>;
              user1 =
                (if role user = ADMIN then user\<lparr>permissions := permissions_table d\<rparr>
                 else if role user = HR then
                   user\<lparr>permissions :=
                          filter (\<lambda>p. p_name p \<in> set [''read'', ''write'', ''manage_users''])
                            (permissions_table d)\<rparr>
                 else
                   (case first (filter (\<lambda>p. p_name p = ''read'') (permissions_table d)) of
                      Some permission \<Rightarrow> user\<lparr>permissions := [permission]\<rparr>
                    | None \<Rightarrow> user));
              user2 =
                (case create_firebase_user sec (c_email user_data) (c_password user_data)
                        (c_name user_data) of
                   None \<Rightarrow> user1
                 | Some uid \<Rightarrow> if uid = [] then user1 else user1\<lparr>firebase_uid := Some uid\<rparr>);
              d1 = d\<lparr>users_table := users_table d @ [user2], users_seq := users_seq d + 1\<rparr>;
              access = create_access_token sec
                         [(''sub'', JStr (email user2)),
                          (''role'', JStr (role_value (role user2))),
                          (''user_id'', JInt (u_id user2))];
              refresh = create_refresh_token sec
                          [(''sub'', JStr (email user2)), (''user_id'', JInt (u_id user2))];
              d2 = add_session
                     \<lparr>s_id = 0, user_id = u_id user2, s_refresh_token = refresh,
                      expires_at = now + days 7, s_created_at = now,
                      ip_address = None, user_agent = None\<rparr> d1
          in (Inr \<lparr>access_token = access, t_refresh_token = Some refresh,
                   token_type = ''bearer''\<rparr>, d2))"

text \<open>\<^verbatim>\<open>login\<close>: \<open>username\<close> and \<open>password\<close> are the fields of the form, \<open>client_host\<close>
  and \<open>agent\<close> the address and the \<^verbatim>\<open>User-Agent\<close> header of the request. Writing
  \<open>last_login\<close> updates the row, which also sets \<open>updated_at\<close> (its \<^verbatim>\<open>onupdate\<close>).\<close>

definition login ::
  "security \<Rightarrow> string \<Rightarrow> string \<Rightarrow> string option \<Rightarrow> string option \<Rightarrow> int \<Rightarrow> db
     \<Rightarrow> (error + Token) \<times> db" where
  "login sec username password client_host agent now d =
     (case first (filter (\<lambda>u. email u = username) (users_table d)) of
        None \<Rightarrow>
          (Inl (HTTPException HTTP_401_UNAUTHORIZED ''Incorrect email or password''), d)
      | Some user \<Rightarrow>
          if \<not> verify_password sec password (hashed_password user) then
            (Inl (HTTPException HTTP_401_UNAUTHORIZED ''Incorrect email or password''), d)
          else if \<not> is_active user then
            (Inl (HTTPException HTTP_403_FORBIDDEN ''Account is disabled''), d)
          else
            let d1 = update_users_row (u_id user)
                       (\<lambda>u. u\<lparr>last_login := Some now, updated_at := now\<rparr>) d;
                access = create_access_token sec
                           [(''sub'', JStr (email user)),
                            (''role'', JStr (role_value (role user))),
                            (''user_id'', JInt (u_id user))];
                refresh = create_refresh_token sec
                            [(''sub'', JStr (email user)), (''user_id'', JInt (u_id user))];
                d2 = add_session
                       \<lparr>s_id = 0, user_id = u_id user, s_refresh_token = refresh,
                        expires_at = now + days 7, s_created_at = now,
                        ip_address = client_host, user_agent = agent\<rparr> d1
            in (Inr \<lparr>access_token = access, t_refresh_token = Some refresh,
                     token_type = ''bearer''\<rparr>, d2))"

text \<open>\<^verbatim>\<open>reset_password\<close>: a NULL token or expiry never satisfies the filter. The update
  of the row also sets \<open>updated_at\<close> (its \<^verbatim>\<open>onupdate\<close>).\<close>

definition reset_password :: "security \<Rightarrow> string \<Rightarrow> string \<Rightarrow> int \<Rightarrow> db \<Rightarrow> (error + string) \<times> db" where
  "reset_password sec token new_password now d =
     (let hashed_token = hash_token sec token in
      case first (filter (\<lambda>u. reset_password_token u = Some hashed_token \<and>
                              (case reset_password_expire u of
                                 None \<Rightarrow> False
                               | Some t \<Rightarrow> t > now))
                    (users_table d)) of
        None \<Rightarrow>
          (Inl (HTTPException HTTP_400_BAD_REQUEST ''Invalid or expired reset token''), d)
      | Some user \<Rightarrow>
          (Inr ''Password reset successfully'',
           update_users_row (u_id user)
             (\<lambda>u. u\<lparr>hashed_password := get_password_hash sec new_password,
                     reset_password_token := None,
                     reset_password_expire := None,
                     updated_at := now\<rparr>) d))"

text \<open>The session query of \<^verbatim>\<open>refresh_token\<close> (the specification's \<open>find_valid\<close>): the
  first session with this token, this user id and an expiry after \<open>now\<close>. The user id is
  the claim of the token; a row matches when the claim is the integer in the column.\<close>

definition find_valid :: "string \<Rightarrow> claim \<Rightarrow> int \<Rightarrow> db \<Rightarrow> UserSession option" where
  "find_valid token user_id_claim now d =
     first (filter (\<lambda>s. s_refresh_token s = token \<and>
                         JInt (user_id s) = user_id_claim \<and>
                         expires_at s > now)
              (user_sessions_table d))"

text \<open>\<^verbatim>\<open>session.user\<close>: the user row the foreign key points to.\<close>

definition session_user :: "UserSession \<Rightarrow> db \<Rightarrow> User option" where
  "session_user s d = first (filter (\<lambda>u. u_id u = user_id s) (users_table d))"

definition refresh_token :: "security \<Rightarrow> string \<Rightarrow> int \<Rightarrow> db \<Rightarrow> (error + Token) \<times> db" where
  "refresh_token sec token now d =
     (case decode_token sec token of
        None \<Rightarrow> (Inl (HTTPException HTTP_401_UNAUTHORIZED ''Invalid refresh token''), d)
      | Some payload \<Rightarrow>
          if payload = [] \<or> dict_get payload ''type'' \<noteq> JStr ''refresh'' then
            (Inl (HTTPException HTTP_401_UNAUTHORIZED ''Invalid refresh token''), d)
          else
            (case find_valid token (dict_get payload ''user_id'') now d of
               None \<Rightarrow>
                 (Inl (HTTPException HTTP_401_UNAUTHORIZED
                         ''Invalid or expired refresh token''), d)
             | Some session \<Rightarrow>
                 (case session_user session d of
                    None \<Rightarrow> (Inl AttributeError, d)
                  | Some user \<Rightarrow>
                      (Inr \<lparr>access_token =
                              create_access_token sec
                                [(''sub'', JStr (email user)),
                                 (''role'', JStr (role_value (role user))),
                                 (''user_id'', JInt (u_id user))],
                            t_refresh_token = None,
                            token_type = ''bearer''\<rparr>, d))))"

definition logout :: "security \<Rightarrow> string \<Rightarrow> db \<Rightarrow> (error + string) \<times> db" where
  "logout sec token d =
     (case get_current_user sec token d of
        Inl e \<Rightarrow> (Inl e, d)
      | Inr current_user \<Rightarrow>
          (Inr ''Successfully logged out'',
           d\<lparr>user_sessions_table :=
                filter (\<lambda>s. user_id s \<noteq> u_id current_user) (user_sessions_table d)\<rparr>))"

section \<open>Administration routes (app/routers/admin.py)\<close>

text \<open>\<^verbatim>\<open>update_user_role\<close>, behind \<^verbatim>\<open>require_permission(["manage_roles"])\<close>. The
  answer is the message \<^verbatim>\<open>User role updated to {role}\<close>, kept as its role.\<close>

definition update_user_role ::
  "security \<Rightarrow> string \<Rightarrow> int \<Rightarrow> UserRole \<Rightarrow> int \<Rightarrow> db \<Rightarrow> (error + UserRole) \<times> db" where
  "update_user_role sec token target_id new_role now d =
     (case require_permission [''manage_roles''] sec token d of
        Inl e \<Rightarrow> (Inl e, d)
      | Inr current_user \<Rightarrow>
          (case first (filter (\<lambda>u. u_id u = target_id) (users_table d)) of
             None \<Rightarrow> (Inl (HTTPException HTTP_404_NOT_FOUND ''User not found''), d)
           | Some user \<Rightarrow>
               let new_permissions =
                     (if new_role = ADMIN then permissions_table d
                      else if new_role = HR then
                        filter (\<lambda>p. p_name p \<in> set [''read'', ''write'', ''manage_users''])
                          (permissions_table d)
                      else
                        (case first (filter (\<lambda>p. p_name p = ''read'') (permissions_table d)) of
                           Some permission \<Rightarrow> [permission]
                         | None \<Rightarrow> []))
               in (Inr new_role,
                   update_users_row (u_id user)
                     (\<lambda>u. u\<lparr>role := new_role, updated_at := now,
                             permissions := new_permissions\<rparr>) d)))"

text \<open>\<^verbatim>\<open>delete_user\<close>, behind \<^verbatim>\<open>require_permission(["delete"])\<close>.\<close>

definition delete_user :: "security \<Rightarrow> string \<Rightarrow> int \<Rightarrow> db \<Rightarrow> (error + string) \<times> db" where
  "delete_user sec token target_id d =
     (case require_permission [''delete''] sec token d of
        Inl e \<Rightarrow> (Inl e, d)
      | Inr current_user \<Rightarrow>
          if u_id current_user = target_id then
            (Inl (HTTPException HTTP_400_BAD_REQUEST ''Cannot delete your own account''), d)
          else
            (case first (filter (\<lambda>u. u_id u = target_id) (users_table d)) of
               None \<Rightarrow> (Inl (HTTPException HTTP_404_NOT_FOUND ''User not found''), d)
             | Some user \<Rightarrow>
                 (Inr ''User deleted successfully'', delete_users_row (u_id user) d)))"

section \<open>Self-profile routes (app/routers/users.py)\<close>

definition change_password ::
  "security \<Rightarrow> string \<Rightarrow> string \<Rightarrow> string \<Rightarrow> int \<Rightarrow> db \<Rightarrow> (error + string) \<times> db" where
  "change_password sec token current_password new_password now d =
     (case get_current_active_user sec token d of
        Inl e \<Rightarrow> (Inl e, d)
      | Inr current_user \<Rightarrow>
          if \<not> verify_password sec current_password (hashed_password current_user) then
            (Inl (HTTPException HTTP_400_BAD_REQUEST ''Current password is incorrect''), d)
          else
            (Inr ''Password changed successfully'',
             update_users_row (u_id current_user)
               (\<lambda>u. u\<lparr>hashed_password := get_password_hash sec new_password,
                       updated_at := now\<rparr>) d))"

definition delete_account :: "security \<Rightarrow> string \<Rightarrow> db \<Rightarrow> (error + string) \<times> db" where
  "delete_account sec token d =
     (case get_current_active_user sec token d of
        Inl e \<Rightarrow> (Inl e, d)
      | Inr current_user \<Rightarrow>
          (Inr ''Account deleted successfully'', delete_users_row (u_id current_user) d))"

section \<open>What a password update may change\<close>

text \<open>The frame of a password update of the user with primary key \<open>pk\<close>, from \<open>d\<close> to
  \<open>d'\<close>: nothing but the user table differs; in the user table every row with another
  primary key is the same, and a row with the key \<open>pk\<close> differs at most in
  \<open>hashed_password\<close>, \<open>reset_password_token\<close>, \<open>reset_password_expire\<close> and
  \<open>updated_at\<close>; the session query and the refresh route answer as before.\<close>

abbreviation password_frame :: "security \<Rightarrow> int \<Rightarrow> db \<Rightarrow> db \<Rightarrow> bool" where
  "password_frame sec pk d d' \<equiv>
     d' = d\<lparr>users_table := users_table d'\<rparr> \<and>
     user_sessions_table d' = user_sessions_table d \<and>
     permissions_table d' = permissions_table d \<and>
     list_all2
       (\<lambda>u u'. if u_id u = pk
                then u' = u\<lparr>hashed_password := hashed_password u',
                             reset_password_token := reset_password_token u',
                             reset_password_expire := reset_password_expire u',
                             updated_at := updated_at u'\<rparr>
                else u' = u)
       (users_table d) (users_table d') \<and>
     (\<forall>token user_id_claim t.
        find_valid token user_id_claim t d' = find_valid token user_id_claim t d) \<and>
     (\<forall>token t. fst (refresh_token sec token t d') = fst (refresh_token sec token t d))"

section \<open>A concrete deployment for the worked examples\<close>

text \<open>
  The example codec accepts seven tokens: \<open>''A1''\<close>, \<open>''A2''\<close> and \<open>''A3''\<close> are access
  tokens of the users 1, 2 and 3; \<open>''A0''\<close> is an access token without a subject and
  \<open>''A9''\<close> one whose subject has no account; \<open>''R2''\<close> and \<open>''R3''\<close> are refresh
  tokens of the users 2 and 3. User 3 has been deactivated. Every user has a pending
  password reset, whose token is \<open>''reset:''\<close> followed by the email.
\<close>

definition ex_decode :: "string \<Rightarrow> payload option" where
  "ex_decode t =
     (if t = ''A1'' then Some [(''sub'', JStr ''root@x.io''), (''role'', JStr ''admin''),
                               (''user_id'', JInt 1), (''type'', JStr ''access'')]
      else if t = ''A2'' then Some [(''sub'', JStr ''bob@x.io''), (''role'', JStr ''hr''),
                               (''user_id'', JInt 2), (''type'', JStr ''access'')]
      else if t = ''A3'' then Some [(''sub'', JStr ''eve@x.io''), (''role'', JStr ''user''),
                               (''user_id'', JInt 3), (''type'', JStr ''access'')]
      else if t = ''A0'' then Some [(''type'', JStr ''access'')]
      else if t = ''A9'' then Some [(''sub'', JStr ''ghost@x.io''), (''type'', JStr ''access'')]
      else if t = ''R2'' then Some [(''sub'', JStr ''bob@x.io''), (''user_id'', JInt 2),
                               (''type'', JStr ''refresh'')]
      else if t = ''R3'' then Some [(''sub'', JStr ''eve@x.io''), (''user_id'', JInt 3),
                               (''type'', JStr ''refresh'')]
      else None)"

definition ex_security :: security where
  "ex_security =
     \<lparr>decode_token = ex_decode,
      create_access_token =
        (\<lambda>data. ''A:'' @ (case dict_get data ''role'' of JStr r \<Rightarrow> r | _ \<Rightarrow> [])),
      create_refresh_token = (\<lambda>data. ''R:''),
      get_password_hash = (\<lambda>p. ''#'' @ p),
      verify_password = (\<lambda>p h. h = ''#'' @ p),
      hash_token = (\<lambda>t. ''%'' @ t),
      create_firebase_user = (\<lambda>e p n. None)\<rparr>"

definition ex_read :: Permission where
  "ex_read = \<lparr>p_id = 1, p_name = ''read'', description = Some ''Can read data''\<rparr>"

definition ex_permissions :: "Permission list" where
  "ex_permissions =
     [ex_read,
      \<lparr>p_id = 2, p_name = ''write'', description = Some ''Can write data''\<rparr>,
      \<lparr>p_id = 3, p_name = ''delete'', description = Some ''Can delete data''\<rparr>,
      \<lparr>p_id = 4, p_name = ''manage_users'', description = Some ''Can manage users''\<rparr>,
      \<lparr>p_id = 5, p_name = ''manage_roles'', description = Some ''Can manage roles''\<rparr>]"

definition ex_user :: "int \<Rightarrow> string \<Rightarrow> UserRole \<Rightarrow> bool \<Rightarrow> Permission list \<Rightarrow> User" where
  "ex_user k e r a ps =
     \<lparr>u_id = k, email = e, u_name = ''N'', phone = None,
      hashed_password = ''#Secret1'', role = r, is_active = a,
      is_email_verified = True, firebase_uid = None, u_created_at = 10, updated_at = 10,
      last_login = None, email_verification_token = None, email_verification_expire = None,
      reset_password_token = Some (''%reset:'' @ e), reset_password_expire = Some 5000,
      permissions = ps\<rparr>"

definition ex_root :: User where
  "ex_root = ex_user 1 ''root@x.io'' ADMIN True ex_permissions"

definition ex_bob :: User where
  "ex_bob = ex_user 2 ''bob@x.io'' HR True [ex_read]"

definition ex_eve :: User where
  "ex_eve = ex_user 3 ''eve@x.io'' USER False [ex_read]"

definition ex_session :: "int \<Rightarrow> int \<Rightarrow> string \<Rightarrow> UserSession" where
  "ex_session k owner t =
     \<lparr>s_id = k, user_id = owner, s_refresh_token = t, expires_at = 9000,
      s_created_at = 20, ip_address = None, user_agent = None\<rparr>"

definition ex_db :: db where
  "ex_db =
     \<lparr>users_table = [ex_root, ex_bob, ex_eve],
      permissions_table = ex_permissions,
      user_sessions_table = [ex_session 1 2 ''R2'', ex_session 2 3 ''R3''],
      users_seq = 4, permissions_seq = 6, user_sessions_seq = 3\<rparr>"

section \<open>Auxiliary facts about queries\<close>

lemma first_Nil [simp]: "first [] = None"
  by (simp add: first_def)

lemma first_Cons [simp]: "first (x # xs) = Some x"
  by (simp add: first_def)

lemma first_filter_None: "first (filter P xs) = None \<longleftrightarrow> (\<forall>x\<in>set xs. \<not> P x)"
  by (induction xs) auto

lemma first_filter_SomeD: "first (filter P xs) = Some x \<Longrightarrow> x \<in> set xs \<and> P x"
  by (induction xs) (auto split: if_splits)

lemma ex_dec [simp]: "decode_token ex_security = ex_decode"
  by (simp add: ex_security_def)

lemma ex_users [simp]: "users_table ex_db = [ex_root, ex_bob, ex_eve]"
  by (simp add: ex_db_def)

lemma ex_emails [simp]:
  "email ex_root = ''root@x.io''" "email ex_bob = ''bob@x.io''" "email ex_eve = ''eve@x.io''"
  by (simp_all add: ex_root_def ex_bob_def ex_eve_def ex_user_def)

lemma ex_active [simp]: "is_active ex_root" "is_active ex_bob" "\<not> is_active ex_eve"
  by (simp_all add: ex_root_def ex_bob_def ex_eve_def ex_user_def)

section \<open>The identity resolver\<close>

lemma get_current_user_undecodable:
  "decode_token sec token = None \<Longrightarrow> get_current_user sec token d = Inl credentials_exception"
  by (simp add: get_current_user_def)

lemma get_current_user_wrong_type:
  "decode_token sec token = Some payload \<Longrightarrow> dict_get payload ''type'' \<noteq> JStr ''access'' \<Longrightarrow>
   get_current_user sec token d = Inl credentials_exception"
  by (simp add: get_current_user_def)

lemma get_current_user_no_subject:
  "decode_token sec token = Some payload \<Longrightarrow> dict_get payload ''sub'' = JNull \<Longrightarrow>
   get_current_user sec token d = Inl credentials_exception"
  by (simp add: get_current_user_def)

lemma get_current_user_unknown_subject:
  assumes "decode_token sec token = Some payload"
    and "\<forall>u\<in>set (users_table d). JStr (email u) \<noteq> dict_get payload ''sub''"
  shows "get_current_user sec token d = Inl credentials_exception"
proof -
  have "first (filter (\<lambda>u. JStr (email u) = dict_get payload ''sub'') (users_table d)) = None"
    using assms(2) by (simp add: first_filter_None)
  with assms(1) show ?thesis
    by (simp add: get_current_user_def Let_def)
qed

lemma get_current_user_found:
  assumes "decode_token sec token = Some payload"
    and "dict_get payload ''type'' = JStr ''access''"
    and "first (filter (\<lambda>u. JStr (email u) = dict_get payload ''sub'') (users_table d)) = Some user"
  shows "get_current_user sec token d =
           (if is_active user then Inr user
            else Inl (HTTPException HTTP_403_FORBIDDEN ''User account is disabled''))"
proof -
  from first_filter_SomeD [OF assms(3)] have "dict_get payload ''sub'' \<noteq> JNull"
    by auto
  with assms show ?thesis
    by (simp add: get_current_user_def Let_def)
qed

text \<open>
  C1. \<open>get_current_user\<close> raises the 401 \<open>credentials_exception\<close> when the token does not
  decode, when its type claim is not \<open>access\<close>, when it has no subject claim, and when
  no user row has the subject as its email. When the row is found and its \<open>is_active\<close>
  is false it raises an exception of status 403, which is not the status 401.
\<close>

theorem get_current_user_failure_kinds:
  "(decode_token sec token = None \<longrightarrow> get_current_user sec token d = Inl credentials_exception) \<and>
   (\<forall>payload. decode_token sec token = Some payload \<longrightarrow>
      (dict_get payload ''type'' \<noteq> JStr ''access'' \<longrightarrow>
         get_current_user sec token d = Inl credentials_exception) \<and>
      (dict_get payload ''sub'' = JNull \<longrightarrow>
         get_current_user sec token d = Inl credentials_exception) \<and>
      ((\<forall>u\<in>set (users_table d). JStr (email u) \<noteq> dict_get payload ''sub'') \<longrightarrow>
         get_current_user sec token d = Inl credentials_exception) \<and>
      (\<forall>user. dict_get payload ''type'' = JStr ''access'' \<and>
              first (filter (\<lambda>u. JStr (email u) = dict_get payload ''sub'') (users_table d))
                = Some user \<and>
              \<not> is_active user \<longrightarrow>
         get_current_user sec token d =
           Inl (HTTPException HTTP_403_FORBIDDEN ''User account is disabled''))) \<and>
   status_code credentials_exception = HTTP_401_UNAUTHORIZED \<and>
   status_code (HTTPException HTTP_403_FORBIDDEN ''User account is disabled'')
     = HTTP_403_FORBIDDEN"
  using get_current_user_undecodable get_current_user_wrong_type get_current_user_no_subject
    get_current_user_unknown_subject get_current_user_found [of sec token _ d]
  by (simp add: status_code_def credentials_exception_def)

text \<open>The five cases on the example deployment: an undecodable token, a refresh token,
  a token without subject, a token of an unknown subject, and the token of the
  deactivated user 3.\<close>

theorem get_current_user_failure_kinds_witness:
  "get_current_user ex_security ''zz'' ex_db = Inl credentials_exception \<and>
   get_current_user ex_security ''R2'' ex_db = Inl credentials_exception \<and>
   get_current_user ex_security ''A0'' ex_db = Inl credentials_exception \<and>
   get_current_user ex_security ''A9'' ex_db = Inl credentials_exception \<and>
   get_current_user ex_security ''A3'' ex_db =
     Inl (HTTPException HTTP_403_FORBIDDEN ''User account is disabled'')"
  using get_current_user_failure_kinds [of ex_security "''zz''" ex_db]
    get_current_user_failure_kinds [of ex_security "''R2''" ex_db]
    get_current_user_failure_kinds [of ex_security "''A0''" ex_db]
    get_current_user_failure_kinds [of ex_security "''A9''" ex_db]
    get_current_user_failure_kinds [of ex_security "''A3''" ex_db]
  by (simp add: dict_get_def ex_decode_def)

lemma refresh_token_wrong_type:
  "decode_token sec token = Some payload \<Longrightarrow> dict_get payload ''type'' \<noteq> JStr ''refresh'' \<Longrightarrow>
   refresh_token sec token now d =
     (Inl (HTTPException HTTP_401_UNAUTHORIZED ''Invalid refresh token''), d)"
  by (simp add: refresh_token_def)

section \<open>Token kinds\<close>

text \<open>
  C2. For a token that decodes, \<open>get_current_user\<close> raises the 401
  \<open>credentials_exception\<close> unless the type claim is \<open>access\<close>, and \<open>refresh_token\<close>
  raises a 401 exception (and leaves the database as it is) unless the type claim is
  \<open>refresh\<close>. So a refresh token does not pass the access check and an access token
  does not pass the refresh check.
\<close>

theorem token_type_is_checked:
  assumes "decode_token sec token = Some payload"
  shows "(dict_get payload ''type'' \<noteq> JStr ''access'' \<longrightarrow>
            get_current_user sec token d = Inl credentials_exception) \<and>
         (dict_get payload ''type'' \<noteq> JStr ''refresh'' \<longrightarrow>
            refresh_token sec token now d =
              (Inl (HTTPException HTTP_401_UNAUTHORIZED ''Invalid refresh token''), d)) \<and>
         (dict_get payload ''type'' = JStr ''refresh'' \<longrightarrow>
            get_current_user sec token d = Inl credentials_exception) \<and>
         (dict_get payload ''type'' = JStr ''access'' \<longrightarrow>
            refresh_token sec token now d =
              (Inl (HTTPException HTTP_401_UNAUTHORIZED ''Invalid refresh token''), d)) \<and>
         status_code credentials_exception = HTTP_401_UNAUTHORIZED"
  using assms get_current_user_wrong_type [of sec token payload d]
    refresh_token_wrong_type [of sec token payload now d]
  by (auto simp: status_code_def credentials_exception_def)

text \<open>The refresh token \<open>''R2''\<close> at the access check and the access token \<open>''A2''\<close> at
  the refresh route.\<close>

theorem token_type_is_checked_witness:
  "ex_decode ''R2'' = Some [(''sub'', JStr ''bob@x.io''), (''user_id'', JInt 2),
                            (''type'', JStr ''refresh'')] \<and>
   get_current_user ex_security ''R2'' ex_db = Inl credentials_exception \<and>
   ex_decode ''A2'' = Some [(''sub'', JStr ''bob@x.io''), (''role'', JStr ''hr''),
                            (''user_id'', JInt 2), (''type'', JStr ''access'')] \<and>
   refresh_token ex_security ''A2'' 100 ex_db =
     (Inl (HTTPException HTTP_401_UNAUTHORIZED ''Invalid refresh token''), ex_db)"
proof -
  have r: "decode_token ex_security ''R2'' = Some [(''sub'', JStr ''bob@x.io''),
             (''user_id'', JInt 2), (''type'', JStr ''refresh'')]"
    by (simp add: ex_decode_def)
  have a: "decode_token ex_security ''A2'' = Some [(''sub'', JStr ''bob@x.io''),
             (''role'', JStr ''hr''), (''user_id'', JInt 2), (''type'', JStr ''access'')]"
    by (simp add: ex_decode_def)
  show ?thesis
    using token_type_is_checked [OF r, of ex_db 100] token_type_is_checked [OF a, of ex_db 100]
      r a
    by (simp add: dict_get_def)
qed


lemma ex_resolve [simp]:
  "get_current_user ex_security ''A1'' ex_db = Inr ex_root"
  "get_current_user ex_security ''A2'' ex_db = Inr ex_bob"
  by (simp_all add: get_current_user_def ex_decode_def dict_get_def)

lemma ex_resolve_active [simp]:
  "get_current_active_user ex_security ''A1'' ex_db = Inr ex_root"
  "get_current_active_user ex_security ''A2'' ex_db = Inr ex_bob"
  by (simp_all add: get_current_active_user_def)

lemma ex_perms [simp]:
  "permissions ex_root = ex_permissions" "permissions ex_bob = [ex_read]"
  "permissions ex_eve = [ex_read]"
  by (simp_all add: ex_root_def ex_bob_def ex_eve_def ex_user_def)

lemma ex_ids [simp]: "u_id ex_root = 1" "u_id ex_bob = 2" "u_id ex_eve = 3"
  by (simp_all add: ex_root_def ex_bob_def ex_eve_def ex_user_def)

section \<open>The permission gate\<close>

text \<open>
  C4. For a resolved active user, \<open>require_permission\<close> returns the user exactly when one
  of the required names is the name of a permission of the user (one match is enough);
  otherwise it raises an exception of status 403. This holds for every list of required
  names, the empty one included.
\<close>

theorem permission_gate_is_any:
  assumes "get_current_active_user sec token d = Inr current_user"
  shows "require_permission required_permissions sec token d =
           (if set required_permissions \<inter> p_name ` set (permissions current_user) \<noteq> {}
            then Inr current_user
            else Inl (HTTPException HTTP_403_FORBIDDEN
                        ''You don't have permission to perform this action''))"
  using assms
  by (auto simp: require_permission_def permission_checker_def Let_def list_ex_iff)

text \<open>The HR user of the example holds \<open>read\<close> only: the gate for \<open>manage_roles\<close> or
  \<open>read\<close> lets the user in, the gate for \<open>manage_roles\<close> alone answers 403.\<close>

theorem permission_gate_is_any_witness:
  "get_current_active_user ex_security ''A2'' ex_db = Inr ex_bob \<and>
   require_permission [''manage_roles'', ''read''] ex_security ''A2'' ex_db = Inr ex_bob \<and>
   require_permission [''manage_roles''] ex_security ''A2'' ex_db =
     Inl (HTTPException HTTP_403_FORBIDDEN ''You don't have permission to perform this action'')"
proof -
  have h: "get_current_active_user ex_security ''A2'' ex_db = Inr ex_bob"
    by simp
  show ?thesis
    using permission_gate_is_any [OF h, of "[''manage_roles'', ''read'']"]
      permission_gate_is_any [OF h, of "[''manage_roles'']"] h
    by (simp add: ex_read_def)
qed

section \<open>Logout\<close>

lemma find_valid_SomeD:
  "find_valid token c now d = Some s \<Longrightarrow>
   s \<in> set (user_sessions_table d) \<and> s_refresh_token s = token \<and> JInt (user_id s) = c \<and>
   now < expires_at s"
  unfolding find_valid_def by (drule first_filter_SomeD) simp

lemma find_valid_None:
  "find_valid token c now d = None \<longleftrightarrow>
   (\<forall>s\<in>set (user_sessions_table d).
      \<not> (s_refresh_token s = token \<and> JInt (user_id s) = c \<and> now < expires_at s))"
  unfolding find_valid_def by (simp add: first_filter_None)

lemma refresh_token_no_session:
  assumes "find_valid token (dict_get payload ''user_id'') now d = None"
    and "decode_token sec token = Some payload"
  shows "\<exists>detail. refresh_token sec token now d =
           (Inl (HTTPException HTTP_401_UNAUTHORIZED detail), d)"
  using assms by (simp add: refresh_token_def)

text \<open>
  C5. For an authenticated user, \<open>logout\<close> succeeds and leaves no session row of that
  user. Afterwards the session query \<open>find_valid\<close> finds nothing for the refresh token of
  any session the user had, nor for any token presented with the user's id, whatever the
  time (so also before the expiry of the deleted sessions), and \<open>refresh_token\<close> answers
  401 to every token whose user id claim is the user's id.
\<close>

theorem logout_revokes_every_session:
  assumes "get_current_user sec token d = Inr current_user"
  shows "\<exists>d'. logout sec token d = (Inr ''Successfully logged out'', d') \<and>
           (\<forall>s\<in>set (user_sessions_table d'). user_id s \<noteq> u_id current_user) \<and>
           (\<forall>s\<in>set (user_sessions_table d). user_id s = u_id current_user \<longrightarrow>
              (\<forall>now. find_valid (s_refresh_token s) (JInt (user_id s)) now d' = None)) \<and>
           (\<forall>rt now. find_valid rt (JInt (u_id current_user)) now d' = None) \<and>
           (\<forall>rt now payload.
              decode_token sec rt = Some payload \<and>
              dict_get payload ''user_id'' = JInt (u_id current_user) \<longrightarrow>
              (\<exists>detail. refresh_token sec rt now d' =
                 (Inl (HTTPException HTTP_401_UNAUTHORIZED detail), d')))"
proof -
  define d' where "d' = d\<lparr>user_sessions_table :=
      filter (\<lambda>s. user_id s \<noteq> u_id current_user) (user_sessions_table d)\<rparr>"
  have res: "logout sec token d = (Inr ''Successfully logged out'', d')"
    using assms by (simp add: logout_def d'_def)
  have gone: "\<forall>s\<in>set (user_sessions_table d'). user_id s \<noteq> u_id current_user"
    by (simp add: d'_def)
  have fv: "find_valid rt (JInt (u_id current_user)) now d' = None" for rt now
    using gone by (auto simp: find_valid_None)
  have rf: "\<exists>detail. refresh_token sec rt now d' =
              (Inl (HTTPException HTTP_401_UNAUTHORIZED detail), d')"
    if "decode_token sec rt = Some payload"
      and "dict_get payload ''user_id'' = JInt (u_id current_user)" for rt now payload
    using refresh_token_no_session [of rt payload now d' sec] that fv by simp
  have own: "\<forall>s\<in>set (user_sessions_table d). user_id s = u_id current_user \<longrightarrow>
              (\<forall>now. find_valid (s_refresh_token s) (JInt (user_id s)) now d' = None)"
    using fv by simp
  show ?thesis
  proof (intro exI [of _ d'] conjI)
    show "logout sec token d = (Inr ''Successfully logged out'', d')" by (rule res)
    show "\<forall>s\<in>set (user_sessions_table d'). user_id s \<noteq> u_id current_user" by (rule gone)
    show "\<forall>s\<in>set (user_sessions_table d). user_id s = u_id current_user \<longrightarrow>
              (\<forall>now. find_valid (s_refresh_token s) (JInt (user_id s)) now d' = None)"
      by (rule own)
    show "\<forall>rt now. find_valid rt (JInt (u_id current_user)) now d' = None"
      using fv by simp
    show "\<forall>rt now payload.
              decode_token sec rt = Some payload \<and>
              dict_get payload ''user_id'' = JInt (u_id current_user) \<longrightarrow>
              (\<exists>detail. refresh_token sec rt now d' =
                 (Inl (HTTPException HTTP_401_UNAUTHORIZED detail), d'))"
      using rf by simp
  qed
qed

section \<open>Login\<close>

text \<open>
  C6. When no user row has the submitted email, or the row found has a password hash
  that the submitted password does not verify against, \<open>login\<close> raises a 401 exception
  and returns the database it was given: no session row is added and no \<open>last_login\<close> is
  written.
\<close>

theorem login_failure_leaves_state:
  assumes "(\<forall>u\<in>set (users_table d). email u \<noteq> username) \<or>
           (\<exists>user. first (filter (\<lambda>u. email u = username) (users_table d)) = Some user \<and>
                   \<not> verify_password sec password (hashed_password user))"
  shows "login sec username password client_host agent now d =
           (Inl (HTTPException HTTP_401_UNAUTHORIZED ''Incorrect email or password''), d)"
  using assms
proof
  assume "\<forall>u\<in>set (users_table d). email u \<noteq> username"
  then have "first (filter (\<lambda>u. email u = username) (users_table d)) = None"
    by (simp add: first_filter_None)
  then show ?thesis by (simp add: login_def)
next
  assume "\<exists>user. first (filter (\<lambda>u. email u = username) (users_table d)) = Some user \<and>
                 \<not> verify_password sec password (hashed_password user)"
  then show ?thesis by (auto simp: login_def)
qed


lemma ex_sessions [simp]:
  "user_sessions_table ex_db = [ex_session 1 2 ''R2'', ex_session 2 3 ''R3'']"
  by (simp add: ex_db_def)

lemma ex_session_fields [simp]:
  "user_id (ex_session k owner t) = owner" "s_refresh_token (ex_session k owner t) = t"
  "expires_at (ex_session k owner t) = 9000"
  by (simp_all add: ex_session_def)

lemma ex_hashes [simp]: "hashed_password ex_bob = ''#Secret1''"
  by (simp add: ex_bob_def ex_user_def)

lemma ex_verify [simp]: "verify_password ex_security p h \<longleftrightarrow> h = ''#'' @ p"
  by (simp add: ex_security_def)

text \<open>User 2 of the example logs out; the unexpired refresh token \<open>''R2''\<close>, valid before,
  is refused afterwards.\<close>

theorem logout_revokes_every_session_witness:
  "get_current_user ex_security ''A2'' ex_db = Inr ex_bob \<and>
   find_valid ''R2'' (JInt 2) 100 ex_db = Some (ex_session 1 2 ''R2'') \<and>
   (\<exists>d'. logout ex_security ''A2'' ex_db = (Inr ''Successfully logged out'', d') \<and>
         find_valid ''R2'' (JInt 2) 100 d' = None \<and>
         (\<exists>detail. refresh_token ex_security ''R2'' 100 d' =
            (Inl (HTTPException HTTP_401_UNAUTHORIZED detail), d')))"
proof -
  have h: "get_current_user ex_security ''A2'' ex_db = Inr ex_bob"
    by simp
  have r: "decode_token ex_security ''R2'' = Some [(''sub'', JStr ''bob@x.io''),
             (''user_id'', JInt 2), (''type'', JStr ''refresh'')]"
    by (simp add: ex_decode_def)
  have u: "dict_get [(''sub'', JStr ''bob@x.io''), (''user_id'', JInt 2),
             (''type'', JStr ''refresh'')] ''user_id'' = JInt (u_id ex_bob)"
    by (simp add: dict_get_def)
  have before: "find_valid ''R2'' (JInt 2) 100 ex_db = Some (ex_session 1 2 ''R2'')"
    by (simp add: find_valid_def)
  from logout_revokes_every_session [OF h] obtain d' where
    d': "logout ex_security ''A2'' ex_db = (Inr ''Successfully logged out'', d')"
      "\<forall>rt now. find_valid rt (JInt (u_id ex_bob)) now d' = None"
      "\<forall>rt now payload.
         decode_token ex_security rt = Some payload \<and>
         dict_get payload ''user_id'' = JInt (u_id ex_bob) \<longrightarrow>
         (\<exists>detail. refresh_token ex_security rt now d' =
            (Inl (HTTPException HTTP_401_UNAUTHORIZED detail), d'))"
    by blast
  from d'(2) have "find_valid ''R2'' (JInt 2) 100 d' = None"
    by simp
  moreover from d'(3) r u have "\<exists>detail. refresh_token ex_security ''R2'' 100 d' =
            (Inl (HTTPException HTTP_401_UNAUTHORIZED detail), d')"
    by blast
  ultimately show ?thesis using h before d'(1) by blast
qed

text \<open>A wrong password for an existing account and an unknown email.\<close>

theorem login_failure_leaves_state_witness:
  "login ex_security ''bob@x.io'' ''Wrong1'' None None 100 ex_db =
     (Inl (HTTPException HTTP_401_UNAUTHORIZED ''Incorrect email or password''), ex_db) \<and>
   login ex_security ''ghost@x.io'' ''Secret1'' None None 100 ex_db =
     (Inl (HTTPException HTTP_401_UNAUTHORIZED ''Incorrect email or password''), ex_db)"
proof -
  have a: "(\<forall>u\<in>set (users_table ex_db). email u \<noteq> ''bob@x.io'') \<or>
           (\<exists>user. first (filter (\<lambda>u. email u = ''bob@x.io'') (users_table ex_db)) = Some user \<and>
                   \<not> verify_password ex_security ''Wrong1'' (hashed_password user))"
    by simp
  have b: "(\<forall>u\<in>set (users_table ex_db). email u \<noteq> ''ghost@x.io'') \<or>
           (\<exists>user. first (filter (\<lambda>u. email u = ''ghost@x.io'') (users_table ex_db)) = Some user \<and>
                   \<not> verify_password ex_security ''Secret1'' (hashed_password user))"
    by simp
  show ?thesis
    using login_failure_leaves_state [OF a, of None None 100]
      login_failure_leaves_state [OF b, of None None 100]
    by simp
qed

section \<open>Refreshing a token\<close>

lemma dict_get_Nil [simp]: "dict_get [] key = JNull"
  by (simp add: dict_get_def)

lemma first_filter_exists:
  "x \<in> set xs \<Longrightarrow> P x \<Longrightarrow> \<exists>y. first (filter P xs) = Some y"
  using first_filter_None [of P xs] by (cases "first (filter P xs)") auto

text \<open>
  C8. Let a user row be inactive, and let a refresh token decode to a payload of type
  \<open>refresh\<close> with the user's id, with a stored session row of that user for this token
  whose expiry is after \<open>now\<close>. Then \<open>refresh_token\<close> succeeds: it returns an access
  token made from the user's email, role and id, and no refresh token. The route reads
  \<open>is_active\<close> nowhere.
\<close>

theorem refresh_ignores_is_active:
  assumes dec: "decode_token sec token = Some payload"
    and type: "dict_get payload ''type'' = JStr ''refresh''"
    and uid: "dict_get payload ''user_id'' = JInt (u_id user)"
    and row: "s \<in> set (user_sessions_table d)" "s_refresh_token s = token"
      "user_id s = u_id user" "now < expires_at s"
    and usr: "first (filter (\<lambda>u. u_id u = u_id user) (users_table d)) = Some user"
    and off: "\<not> is_active user"
  shows "refresh_token sec token now d =
           (Inr \<lparr>access_token =
                   create_access_token sec
                     [(''sub'', JStr (email user)),
                      (''role'', JStr (role_value (role user))),
                      (''user_id'', JInt (u_id user))],
                 t_refresh_token = None,
                 token_type = ''bearer''\<rparr>, d)"
proof -
  have ne: "payload \<noteq> []"
    using type by auto
  from row uid obtain s' where s': "find_valid token (dict_get payload ''user_id'') now d = Some s'"
    unfolding find_valid_def
    using first_filter_exists [of s "user_sessions_table d"
        "\<lambda>s. s_refresh_token s = token \<and> JInt (user_id s) = JInt (u_id user) \<and> now < expires_at s"]
    by auto
  from find_valid_SomeD [OF s'] uid have "user_id s' = u_id user"
    by simp
  with usr have "session_user s' d = Some user"
    by (simp add: session_user_def)
  with dec type ne s' show ?thesis
    by (simp add: refresh_token_def)
qed

text \<open>The deactivated user 3 of the example: the access token is answered with 403,
  the refresh token with a new access token that carries the role.\<close>

theorem refresh_ignores_is_active_witness:
  "\<not> is_active ex_eve \<and>
   get_current_user ex_security ''A3'' ex_db =
     Inl (HTTPException HTTP_403_FORBIDDEN ''User account is disabled'') \<and>
   refresh_token ex_security ''R3'' 100 ex_db =
     (Inr \<lparr>access_token = ''A:user'', t_refresh_token = None, token_type = ''bearer''\<rparr>, ex_db)"
proof -
  have dec: "decode_token ex_security ''R3'' = Some [(''sub'', JStr ''eve@x.io''),
               (''user_id'', JInt 3), (''type'', JStr ''refresh'')]"
    by (simp add: ex_decode_def)
  have a3: "get_current_user ex_security ''A3'' ex_db =
     Inl (HTTPException HTTP_403_FORBIDDEN ''User account is disabled'')"
    by (simp add: get_current_user_def ex_decode_def dict_get_def)
  have r: "role ex_eve = USER"
    by (simp add: ex_eve_def ex_user_def)
  show ?thesis
    using refresh_ignores_is_active [OF dec, of ex_eve "ex_session 2 3 ''R3''" ex_db 100] a3
    by (simp add: dict_get_def r ex_security_def)
qed

section \<open>Changing a role\<close>

lemma first_filter_update:
  assumes "\<And>u. u_id (f u) = u_id u"
  shows "first (filter (\<lambda>u. u_id u = k) (map (\<lambda>u. if u_id u = pk then f u else u) xs)) =
         map_option (\<lambda>u. if u_id u = pk then f u else u) (first (filter (\<lambda>u. u_id u = k) xs))"
  using assms by (induction xs) auto

lemma users_table_update_users_row [simp]:
  "users_table (update_users_row pk f d) =
     map (\<lambda>u. if u_id u = pk then f u else u) (users_table d)"
  by (simp add: update_users_row_def)

lemma other_tables_update_users_row [simp]:
  "permissions_table (update_users_row pk f d) = permissions_table d"
  "user_sessions_table (update_users_row pk f d) = user_sessions_table d"
  by (simp_all add: update_users_row_def)

lemma ball_update_row:
  assumes "\<And>u. P (f u)"
  shows "\<forall>u\<in>set (map (\<lambda>u. if u_id u = pk then f u else u) xs). u_id u = pk \<longrightarrow> P u"
  using assms by (induction xs) auto

text \<open>
  C3. When the caller passes the gate for \<open>manage_roles\<close> and a user row with the
  target id exists, \<open>update_user_role\<close> succeeds for every role; afterwards the user with
  that id has the new role, and its permissions are: the whole permission table for
  \<open>ADMIN\<close>; the rows of the permission table named \<open>read\<close>, \<open>write\<close> or
  \<open>manage_users\<close> for \<open>HR\<close>; and for every other role the single row named \<open>read\<close>,
  or no permission when the table has no row of that name. The permission table itself
  is not changed.
\<close>

theorem update_user_role_default_permissions:
  assumes gate: "require_permission [''manage_roles''] sec token d = Inr admin"
    and target: "first (filter (\<lambda>u. u_id u = target_id) (users_table d)) = Some user"
  shows "\<exists>d' user'.
           update_user_role sec token target_id new_role now d = (Inr new_role, d') \<and>
           permissions_table d' = permissions_table d \<and>
           first (filter (\<lambda>u. u_id u = target_id) (users_table d')) = Some user' \<and>
           role user' = new_role \<and>
           (new_role = ADMIN \<longrightarrow> permissions user' = permissions_table d) \<and>
           (new_role = HR \<longrightarrow>
              set (permissions user') =
                {p \<in> set (permissions_table d).
                   p_name p = ''read'' \<or> p_name p = ''write'' \<or> p_name p = ''manage_users''} \<and>
              permissions user' =
                filter (\<lambda>p. p_name p = ''read'' \<or> p_name p = ''write'' \<or> p_name p = ''manage_users'')
                  (permissions_table d)) \<and>
           (new_role \<noteq> ADMIN \<and> new_role \<noteq> HR \<longrightarrow>
              (if \<exists>p\<in>set (permissions_table d). p_name p = ''read''
               then \<exists>p\<in>set (permissions_table d). p_name p = ''read'' \<and> permissions user' = [p]
               else permissions user' = [])) \<and>
           (\<forall>u\<in>set (users_table d'). u_id u = target_id \<longrightarrow>
              role u = new_role \<and> permissions u = permissions user')"
proof -
  define grant where "grant =
     (if new_role = ADMIN then permissions_table d
      else if new_role = HR then
        filter (\<lambda>p. p_name p \<in> set [''read'', ''write'', ''manage_users'']) (permissions_table d)
      else (case first (filter (\<lambda>p. p_name p = ''read'') (permissions_table d)) of
              Some permission \<Rightarrow> [permission] | None \<Rightarrow> []))"
  define f where "f = (\<lambda>u::User. u\<lparr>role := new_role, updated_at := now, permissions := grant\<rparr>)"
  define d' where "d' = update_users_row target_id f d"
  from first_filter_SomeD [OF target] have tid: "u_id user = target_id"
    by simp
  have res: "update_user_role sec token target_id new_role now d = (Inr new_role, d')"
    unfolding d'_def f_def grant_def
    by (simp only: update_user_role_def gate sum.case target option.case Let_def tid)
  have fid: "\<And>u. u_id (f u) = u_id u"
    by (simp add: f_def)
  have look: "first (filter (\<lambda>u. u_id u = target_id) (users_table d')) = Some (f user)"
    using first_filter_update [of f target_id target_id "users_table d", OF fid] target tid
    by (simp add: d'_def)
  have hr: "new_role = HR \<Longrightarrow> grant =
      filter (\<lambda>p. p_name p = ''read'' \<or> p_name p = ''write'' \<or> p_name p = ''manage_users'')
        (permissions_table d)"
    by (simp add: grant_def)
  have other: "if \<exists>p\<in>set (permissions_table d). p_name p = ''read''
               then \<exists>p\<in>set (permissions_table d). p_name p = ''read'' \<and> grant = [p]
               else grant = []"
    if "new_role \<noteq> ADMIN" "new_role \<noteq> HR"
  proof (cases "first (filter (\<lambda>p. p_name p = ''read'') (permissions_table d))")
    case None
    then show ?thesis
      using that by (simp add: grant_def first_filter_None)
  next
    case (Some p)
    from first_filter_SomeD [OF Some] Some show ?thesis
      using that by (auto simp: grant_def)
  qed
  have all: "\<forall>u\<in>set (users_table d'). u_id u = target_id \<longrightarrow>
              role u = new_role \<and> permissions u = permissions (f user)"
    unfolding d'_def users_table_update_users_row
    by (rule ball_update_row) (simp add: f_def)
  show ?thesis
  proof (intro exI [of _ d'] exI [of _ "f user"] conjI)
    show "update_user_role sec token target_id new_role now d = (Inr new_role, d')" by (rule res)
    show "permissions_table d' = permissions_table d" by (simp add: d'_def)
    show "first (filter (\<lambda>u. u_id u = target_id) (users_table d')) = Some (f user)" by (rule look)
    show "role (f user) = new_role" by (simp add: f_def)
    show "new_role = ADMIN \<longrightarrow> permissions (f user) = permissions_table d"
      by (simp add: f_def grant_def)
    show "new_role = HR \<longrightarrow>
              set (permissions (f user)) =
                {p \<in> set (permissions_table d).
                   p_name p = ''read'' \<or> p_name p = ''write'' \<or> p_name p = ''manage_users''} \<and>
              permissions (f user) =
                filter (\<lambda>p. p_name p = ''read'' \<or> p_name p = ''write'' \<or> p_name p = ''manage_users'')
                  (permissions_table d)"
      using hr by (auto simp: f_def)
    show "new_role \<noteq> ADMIN \<and> new_role \<noteq> HR \<longrightarrow>
              (if \<exists>p\<in>set (permissions_table d). p_name p = ''read''
               then \<exists>p\<in>set (permissions_table d). p_name p = ''read'' \<and> permissions (f user) = [p]
               else permissions (f user) = [])"
      using other by (simp add: f_def)
    show "\<forall>u\<in>set (users_table d'). u_id u = target_id \<longrightarrow>
              role u = new_role \<and> permissions u = permissions (f user)" by (rule all)
  qed
qed


lemma ex_catalog [simp]: "permissions_table ex_db = ex_permissions"
  by (simp add: ex_db_def)



text \<open>The administrator of the example makes user 3 an HR user and user 2 an
  administrator or a candidate.\<close>

theorem update_user_role_default_permissions_witness:
  "require_permission [''manage_roles''] ex_security ''A1'' ex_db = Inr ex_root \<and>
   first (filter (\<lambda>u. u_id u = 3) (users_table ex_db)) = Some ex_eve \<and>
   (\<exists>d' user'. update_user_role ex_security ''A1'' 3 HR 100 ex_db = (Inr HR, d') \<and>
      first (filter (\<lambda>u. u_id u = 3) (users_table d')) = Some user' \<and>
      role user' = HR \<and>
      map p_name (permissions user') = [''read'', ''write'', ''manage_users'']) \<and>
   (\<exists>d' user'. update_user_role ex_security ''A1'' 2 ADMIN 100 ex_db = (Inr ADMIN, d') \<and>
      first (filter (\<lambda>u. u_id u = 2) (users_table d')) = Some user' \<and>
      role user' = ADMIN \<and> permissions user' = ex_permissions) \<and>
   (\<exists>d' user'. update_user_role ex_security ''A1'' 2 CANDIDATE 100 ex_db = (Inr CANDIDATE, d') \<and>
      first (filter (\<lambda>u. u_id u = 2) (users_table d')) = Some user' \<and>
      role user' = CANDIDATE \<and> map p_name (permissions user') = [''read''])"
proof -
  have gate: "require_permission [''manage_roles''] ex_security ''A1'' ex_db = Inr ex_root"
    by (simp add: require_permission_def permission_checker_def ex_permissions_def ex_read_def)
  have eve: "first (filter (\<lambda>u. u_id u = 3) (users_table ex_db)) = Some ex_eve"
    by simp
  have bob: "first (filter (\<lambda>u. u_id u = 2) (users_table ex_db)) = Some ex_bob"
    by simp
  have hr: "\<exists>d' user'. update_user_role ex_security ''A1'' 3 HR 100 ex_db = (Inr HR, d') \<and>
      first (filter (\<lambda>u. u_id u = 3) (users_table d')) = Some user' \<and>
      role user' = HR \<and>
      map p_name (permissions user') = [''read'', ''write'', ''manage_users'']"
  proof -
    note t = update_user_role_default_permissions [OF gate eve, of HR 100, simplified]
    from t obtain d' user' where
      r: "update_user_role ex_security ''A1'' 3 HR 100 ex_db = (Inr HR, d')"
        "first (filter (\<lambda>u. u_id u = 3) (users_table d')) = Some user'"
        "role user' = HR"
      and p: "permissions user' =
        filter (\<lambda>p. p_name p = ''read'' \<or> p_name p = ''write'' \<or> p_name p = ''manage_users'')
          ex_permissions"
      by blast
    have "map p_name (permissions user') = [''read'', ''write'', ''manage_users'']"
      by (simp add: p ex_permissions_def ex_read_def)
    with r show ?thesis
      by - (rule exI [of _ d'], rule exI [of _ user'], simp)
  qed
  have adm: "\<exists>d' user'. update_user_role ex_security ''A1'' 2 ADMIN 100 ex_db = (Inr ADMIN, d') \<and>
      first (filter (\<lambda>u. u_id u = 2) (users_table d')) = Some user' \<and>
      role user' = ADMIN \<and> permissions user' = ex_permissions"
  proof -
    note t = update_user_role_default_permissions [OF gate bob, of ADMIN 100, simplified]
    from t show ?thesis by auto
  qed
  have cand: "\<exists>d' user'. update_user_role ex_security ''A1'' 2 CANDIDATE 100 ex_db = (Inr CANDIDATE, d') \<and>
      first (filter (\<lambda>u. u_id u = 2) (users_table d')) = Some user' \<and>
      role user' = CANDIDATE \<and> map p_name (permissions user') = [''read'']"
  proof -
    have rd: "\<exists>p\<in>set ex_permissions. p_name p = ''read''"
      by (simp add: ex_permissions_def ex_read_def)
    note t = update_user_role_default_permissions [OF gate bob, of CANDIDATE 100, simplified]
    from t rd obtain d' user' p where
      r: "update_user_role ex_security ''A1'' 2 CANDIDATE 100 ex_db = (Inr CANDIDATE, d')"
        "first (filter (\<lambda>u. u_id u = 2) (users_table d')) = Some user'"
        "role user' = CANDIDATE"
      and p: "p_name p = ''read''" "permissions user' = [p]"
      by (auto split: if_splits)
    have "map p_name (permissions user') = [''read'']"
      by (simp add: p)
    with r show ?thesis
      by - (rule exI [of _ d'], rule exI [of _ user'], simp)
  qed
  show ?thesis by (intro conjI gate eve hr adm cand)
qed

section \<open>Signing up\<close>

lemma add_missing_permissions_frame [simp]:
  "users_table (add_missing_permissions xs d) = users_table d"
  "user_sessions_table (add_missing_permissions xs d) = user_sessions_table d"
  "users_seq (add_missing_permissions xs d) = users_seq d"
  "user_sessions_seq (add_missing_permissions xs d) = user_sessions_seq d"
  by (induction xs d rule: add_missing_permissions.induct; simp split: option.splits)+

lemma add_missing_permissions_keeps:
  "set (permissions_table d) \<subseteq> set (permissions_table (add_missing_permissions xs d))"
proof (induction xs d rule: add_missing_permissions.induct)
  case (1 d)
  then show ?case by simp
next
  case (2 n descr rest d)
  then show ?case
    by (cases "first (filter (\<lambda>p. p_name p = n) (permissions_table d))") auto
qed

lemma add_missing_permissions_names:
  "fst ` set xs \<subseteq> p_name ` set (permissions_table (add_missing_permissions xs d))"
proof (induction xs d rule: add_missing_permissions.induct)
  case (1 d)
  then show ?case by simp
next
  case (2 n descr rest d)
  show ?case
  proof (cases "first (filter (\<lambda>p. p_name p = n) (permissions_table d))")
    case None
    let ?d = "d\<lparr>permissions_table := permissions_table d @
                  [\<lparr>p_id = permissions_seq d, p_name = n, description = Some descr\<rparr>],
               permissions_seq := permissions_seq d + 1\<rparr>"
    have "\<lparr>p_id = permissions_seq d, p_name = n, description = Some descr\<rparr>
            \<in> set (permissions_table ?d)"
      by simp
    with add_missing_permissions_keeps [of ?d rest]
    have "\<lparr>p_id = permissions_seq d, p_name = n, description = Some descr\<rparr>
            \<in> set (permissions_table (add_missing_permissions rest ?d))"
      by blast
    then have "n \<in> p_name ` set (permissions_table (add_missing_permissions rest ?d))"
      by force
    with None 2(1) [OF None] show ?thesis
      by simp
  next
    case (Some p)
    from first_filter_SomeD [OF Some] have "p \<in> set (permissions_table d)" "p_name p = n"
      by simp_all
    with add_missing_permissions_keeps [of d rest]
    have "n \<in> p_name ` set (permissions_table (add_missing_permissions rest d))"
      by blast
    with Some 2(2) [OF Some] show ?thesis
      by simp
  qed
qed

lemma init_default_permissions_names:
  "{''read'', ''write'', ''delete'', ''manage_users'', ''manage_roles''}
     \<subseteq> p_name ` set (permissions_table (init_default_permissions d))"
  using add_missing_permissions_names [of default_permissions d]
  by (simp add: init_default_permissions_def default_permissions_def)

lemma permissions_table_add_session [simp]:
  "permissions_table (add_session s d) = permissions_table d"
  "users_table (add_session s d) = users_table d"
  by (simp_all add: add_session_def)

text \<open>
  C9. \<open>signup\<close> has no token among its arguments: nothing about the caller is checked.
  For a request whose email is that of no user row and whose role field is \<open>ADMIN\<close>, it
  succeeds and appends one user row with that email, the role \<open>ADMIN\<close> and, as
  permissions, the whole permission table as it is after the seeding, which has the
  five default names.
\<close>

theorem signup_accepts_admin_role:
  assumes fresh: "\<forall>u\<in>set (users_table d). email u \<noteq> c_email user_data"
    and adm: "c_role user_data = ADMIN"
  shows "\<exists>tokens d' user.
           signup sec verification_token user_data now d = (Inr tokens, d') \<and>
           users_table d' = users_table d @ [user] \<and>
           email user = c_email user_data \<and>
           role user = ADMIN \<and>
           is_active user \<and>
           permissions user = permissions_table d' \<and>
           permissions_table d' = permissions_table (init_default_permissions d) \<and>
           {''read'', ''write'', ''delete'', ''manage_users'', ''manage_roles''}
             \<subseteq> p_name ` set (permissions user)"
proof -
  define d0 where "d0 = init_default_permissions d"
  have u0: "users_table d0 = users_table d"
    by (simp add: d0_def init_default_permissions_def)
  have none: "first (filter (\<lambda>u. email u = c_email user_data) (users_table d0)) = None"
    using fresh by (simp add: first_filter_None u0)
  have names: "{''read'', ''write'', ''delete'', ''manage_users'', ''manage_roles''}
     \<subseteq> p_name ` set (permissions_table d0)"
    unfolding d0_def by (rule init_default_permissions_names)
  show ?thesis
  proof (cases "create_firebase_user sec (c_email user_data) (c_password user_data)
                  (c_name user_data)")
    case None
    show ?thesis
      using none adm names None u0
      by (simp add: signup_def Let_def d0_def [symmetric])
  next
    case (Some uid)
    show ?thesis
      using none adm names Some u0
      by (simp add: signup_def Let_def d0_def [symmetric])
  qed
qed

lemma ex_seeded: "init_default_permissions ex_db = ex_db"
  by (simp add: init_default_permissions_def default_permissions_def ex_permissions_def
      ex_read_def)

text \<open>An unauthenticated request of the example asks for the role \<open>ADMIN\<close>.\<close>

theorem signup_accepts_admin_role_witness:
  "\<exists>tokens d' user.
     signup ex_security ''vt''
       \<lparr>c_email = ''mallory@x.io'', c_name = ''M'', c_phone = None, c_role = ADMIN,
        c_password = ''Abc123''\<rparr> 100 ex_db = (Inr tokens, d') \<and>
     users_table d' = [ex_root, ex_bob, ex_eve, user] \<and>
     email user = ''mallory@x.io'' \<and> role user = ADMIN \<and>
     permissions user = ex_permissions"
proof -
  let ?req = "\<lparr>c_email = ''mallory@x.io'', c_name = ''M'', c_phone = None, c_role = ADMIN,
        c_password = ''Abc123''\<rparr>"
  have fresh: "\<forall>u\<in>set (users_table ex_db). email u \<noteq> c_email ?req"
    by simp
  have adm: "c_role ?req = ADMIN"
    by simp
  from signup_accepts_admin_role [OF fresh adm, of ex_security "''vt''" 100]
  obtain tokens d' user where
    r: "signup ex_security ''vt'' ?req 100 ex_db = (Inr tokens, d')"
    and u: "users_table d' = users_table ex_db @ [user]"
    and e: "email user = c_email ?req" "role user = ADMIN"
    and p: "permissions user = permissions_table d'"
      "permissions_table d' = permissions_table (init_default_permissions ex_db)"
    by blast
  from p have "permissions user = ex_permissions"
    by (simp add: ex_seeded)
  with r u e show ?thesis
    by - (rule exI [of _ tokens], rule exI [of _ d'], rule exI [of _ user], simp)
qed

section \<open>Changing and resetting a password\<close>

lemma find_valid_update_users_row [simp]:
  "find_valid token c t (update_users_row pk f d) = find_valid token c t d"
  by (simp add: find_valid_def)

lemma session_user_update_users_row:
  assumes "\<And>u. u_id (f u) = u_id u"
  shows "session_user s (update_users_row pk f d) =
         map_option (\<lambda>u. if u_id u = pk then f u else u) (session_user s d)"
  using first_filter_update [of f "user_id s" pk "users_table d", OF assms]
  by (simp add: session_user_def)

lemma refresh_token_update_users_row:
  assumes "\<And>u. u_id (f u) = u_id u" "\<And>u. email (f u) = email u" "\<And>u. role (f u) = role u"
  shows "fst (refresh_token sec token t (update_users_row pk f d)) =
         fst (refresh_token sec token t d)"
proof (cases "decode_token sec token")
  case None
  then show ?thesis by (simp add: refresh_token_def)
next
  case (Some payload)
  show ?thesis
  proof (cases "find_valid token (dict_get payload ''user_id'') t d")
    case None
    with Some show ?thesis by (simp add: refresh_token_def)
  next
    case fv: (Some s)
    show ?thesis
    proof (cases "session_user s d")
      case None
      with Some fv show ?thesis
        by (simp add: refresh_token_def session_user_update_users_row [OF assms(1)])
    next
      case su: (Some u)
      with Some fv show ?thesis
        by (simp add: refresh_token_def session_user_update_users_row [OF assms(1)] assms)
    qed
  qed
qed

lemma users_frame_update_users_row:
  assumes "\<And>u. u_id u = pk \<Longrightarrow> R u (f u)" "\<And>u. u_id u \<noteq> pk \<Longrightarrow> R u u"
  shows "list_all2 R (users_table d) (users_table (update_users_row pk f d))"
  by (simp add: list_all2_map2 list_all2_same assms)

lemma password_frame_update_users_row:
  assumes "f = (\<lambda>u. u\<lparr>hashed_password := h, reset_password_token := rt u,
                        reset_password_expire := re u, updated_at := now\<rparr>)"
  shows "password_frame sec pk d (update_users_row pk f d)"
proof (intro conjI allI)
  show "update_users_row pk f d = d\<lparr>users_table := users_table (update_users_row pk f d)\<rparr>"
    by (simp add: update_users_row_def)
  show "user_sessions_table (update_users_row pk f d) = user_sessions_table d" by simp
  show "permissions_table (update_users_row pk f d) = permissions_table d" by simp
  show "list_all2
       (\<lambda>u u'. if u_id u = pk
                then u' = u\<lparr>hashed_password := hashed_password u',
                             reset_password_token := reset_password_token u',
                             reset_password_expire := reset_password_expire u',
                             updated_at := updated_at u'\<rparr>
                else u' = u)
       (users_table d) (users_table (update_users_row pk f d))"
    by (rule users_frame_update_users_row) (simp_all add: assms)
  show "find_valid token c t (update_users_row pk f d) = find_valid token c t d" for token c t
    by simp
  show "fst (refresh_token sec token t (update_users_row pk f d)) =
         fst (refresh_token sec token t d)" for token t
    by (rule refresh_token_update_users_row) (simp_all add: assms)
qed

text \<open>
  C10. A successful \<open>change_password\<close> (the caller is resolved and the current password
  verifies) and a successful \<open>reset_password\<close> (a user row has the hash of the reset
  token and an expiry after \<open>now\<close>) change nothing in the database but the user table:
  the session table, the permission table and the counters are as before. In the user
  table, every row of another user is as before, and the row of the user (the caller,
  or the owner of the reset token) differs at most in \<open>hashed_password\<close>, the two
  reset-token fields and \<open>updated_at\<close>; its \<open>hashed_password\<close> is the hash of the new
  password. Hence the session query finds after the update what it found before, at
  every time, and \<open>refresh_token\<close> gives the same answer.
\<close>

theorem password_update_keeps_sessions:
  "(\<forall>current_user.
      get_current_active_user sec token d = Inr current_user \<and>
      verify_password sec current_password (hashed_password current_user) \<longrightarrow>
      (\<exists>d'. change_password sec token current_password new_password now d =
               (Inr ''Password changed successfully'', d') \<and>
            password_frame sec (u_id current_user) d d' \<and>
            (\<forall>u\<in>set (users_table d'). u_id u = u_id current_user \<longrightarrow>
               hashed_password u = get_password_hash sec new_password))) \<and>
   (\<forall>user.
      first (filter (\<lambda>u. reset_password_token u = Some (hash_token sec reset_token) \<and>
                          (case reset_password_expire u of None \<Rightarrow> False | Some t \<Rightarrow> t > now))
               (users_table d)) = Some user \<longrightarrow>
      (\<exists>d'. reset_password sec reset_token new_password now d =
               (Inr ''Password reset successfully'', d') \<and>
            password_frame sec (u_id user) d d' \<and>
            (\<forall>u\<in>set (users_table d'). u_id u = u_id user \<longrightarrow>
               hashed_password u = get_password_hash sec new_password)))"
proof (intro conjI allI impI)
  fix current_user
  assume a: "get_current_active_user sec token d = Inr current_user \<and>
      verify_password sec current_password (hashed_password current_user)"
  define f where "f = (\<lambda>u::User. u\<lparr>hashed_password := get_password_hash sec new_password,
                       updated_at := now\<rparr>)"
  define d' where "d' = update_users_row (u_id current_user) f d"
  have f: "f = (\<lambda>u. u\<lparr>hashed_password := get_password_hash sec new_password,
                      reset_password_token := reset_password_token u,
                      reset_password_expire := reset_password_expire u, updated_at := now\<rparr>)"
    by (simp add: f_def)
  have res: "change_password sec token current_password new_password now d =
          (Inr ''Password changed successfully'', d')"
    using a by (simp add: change_password_def f_def d'_def)
  have new: "\<forall>u\<in>set (users_table d'). u_id u = u_id current_user \<longrightarrow>
               hashed_password u = get_password_hash sec new_password"
    unfolding d'_def users_table_update_users_row
    by (rule ball_update_row) (simp add: f_def)
  note frame = password_frame_update_users_row
    [OF f, where sec = sec and d = d and pk = "u_id current_user", folded d'_def]
  show "\<exists>d'. change_password sec token current_password new_password now d =
               (Inr ''Password changed successfully'', d') \<and>
            password_frame sec (u_id current_user) d d' \<and>
            (\<forall>u\<in>set (users_table d'). u_id u = u_id current_user \<longrightarrow>
               hashed_password u = get_password_hash sec new_password)"
    by (rule exI [of _ d']) (intro conjI res new frame [THEN conjunct1]
        frame [THEN conjunct2, THEN conjunct1]
        frame [THEN conjunct2, THEN conjunct2, THEN conjunct1]
        frame [THEN conjunct2, THEN conjunct2, THEN conjunct2, THEN conjunct1]
        frame [THEN conjunct2, THEN conjunct2, THEN conjunct2, THEN conjunct2, THEN conjunct1]
        frame [THEN conjunct2, THEN conjunct2, THEN conjunct2, THEN conjunct2, THEN conjunct2])
next
  fix user
  assume a: "first (filter (\<lambda>u. reset_password_token u = Some (hash_token sec reset_token) \<and>
                          (case reset_password_expire u of None \<Rightarrow> False | Some t \<Rightarrow> t > now))
               (users_table d)) = Some user"
  define f where "f = (\<lambda>u::User. u\<lparr>hashed_password := get_password_hash sec new_password,
                       reset_password_token := None, reset_password_expire := None,
                       updated_at := now\<rparr>)"
  define d' where "d' = update_users_row (u_id user) f d"
  have res: "reset_password sec reset_token new_password now d =
          (Inr ''Password reset successfully'', d')"
    using a by (simp add: reset_password_def f_def d'_def Let_def)
  have new: "\<forall>u\<in>set (users_table d'). u_id u = u_id user \<longrightarrow>
               hashed_password u = get_password_hash sec new_password"
    unfolding d'_def users_table_update_users_row
    by (rule ball_update_row) (simp add: f_def)
  note frame = password_frame_update_users_row
    [OF f_def, where sec = sec and d = d and pk = "u_id user", folded d'_def]
  show "\<exists>d'. reset_password sec reset_token new_password now d =
               (Inr ''Password reset successfully'', d') \<and>
            password_frame sec (u_id user) d d' \<and>
            (\<forall>u\<in>set (users_table d'). u_id u = u_id user \<longrightarrow>
               hashed_password u = get_password_hash sec new_password)"
    by (rule exI [of _ d']) (intro conjI res new frame [THEN conjunct1]
        frame [THEN conjunct2, THEN conjunct1]
        frame [THEN conjunct2, THEN conjunct2, THEN conjunct1]
        frame [THEN conjunct2, THEN conjunct2, THEN conjunct2, THEN conjunct1]
        frame [THEN conjunct2, THEN conjunct2, THEN conjunct2, THEN conjunct2, THEN conjunct1]
        frame [THEN conjunct2, THEN conjunct2, THEN conjunct2, THEN conjunct2, THEN conjunct2])
qed

lemma ex_gph [simp]: "get_password_hash ex_security p = ''#'' @ p"
  by (simp add: ex_security_def)

text \<open>User 2 of the example, who owns the session of the refresh token \<open>''R2''\<close>,
  changes the password, and user 2's reset token is redeemed. Each time the rows of the
  users 1 and 3 are as before, the row of user 2 has the new hash, and \<open>''R2''\<close> stays
  valid.\<close>

theorem password_update_keeps_sessions_witness:
  "find_valid ''R2'' (JInt 2) 100 ex_db = Some (ex_session 1 2 ''R2'') \<and>
   (\<exists>d' bob'. change_password ex_security ''A2'' ''Secret1'' ''Newpass1'' 100 ex_db =
           (Inr ''Password changed successfully'', d') \<and>
         users_table d' = [ex_root, bob', ex_eve] \<and>
         hashed_password bob' = ''#Newpass1'' \<and>
         user_sessions_table d' = user_sessions_table ex_db \<and>
         find_valid ''R2'' (JInt 2) 100 d' = Some (ex_session 1 2 ''R2'')) \<and>
   (\<exists>d' bob'. reset_password ex_security ''reset:bob@x.io'' ''Newpass1'' 100 ex_db =
           (Inr ''Password reset successfully'', d') \<and>
         users_table d' = [ex_root, bob', ex_eve] \<and>
         hashed_password bob' = ''#Newpass1'' \<and>
         user_sessions_table d' = user_sessions_table ex_db \<and>
         find_valid ''R2'' (JInt 2) 100 d' = Some (ex_session 1 2 ''R2''))"
proof -
  have before: "find_valid ''R2'' (JInt 2) 100 ex_db = Some (ex_session 1 2 ''R2'')"
    by (simp add: find_valid_def)
  have a: "get_current_active_user ex_security ''A2'' ex_db = Inr ex_bob \<and>
           verify_password ex_security ''Secret1'' (hashed_password ex_bob)"
    by simp
  have b: "first (filter (\<lambda>u. reset_password_token u =
                              Some (hash_token ex_security ''reset:bob@x.io'') \<and>
                          (case reset_password_expire u of None \<Rightarrow> False | Some t \<Rightarrow> t > 100))
               (users_table ex_db)) = Some ex_bob"
    by (simp add: ex_security_def ex_root_def ex_bob_def ex_user_def)
  have rows: "\<exists>bob'. users = [ex_root, bob', ex_eve] \<and> hashed_password bob' = ''#Newpass1''"
    if l: "list_all2
             (\<lambda>u u'. if u_id u = u_id ex_bob
                then u' = u\<lparr>hashed_password := hashed_password u',
                             reset_password_token := reset_password_token u',
                             reset_password_expire := reset_password_expire u',
                             updated_at := updated_at u'\<rparr>
                else u' = u)
             (users_table ex_db) users"
      and n: "\<forall>u\<in>set users. u_id u = u_id ex_bob \<longrightarrow>
                hashed_password u = get_password_hash ex_security ''Newpass1''"
    for users
  proof -
    from l have "\<exists>zs. users = ex_root # zs \<and>
           (\<exists>z. zs = [z, ex_eve] \<and>
                z = ex_bob\<lparr>hashed_password := hashed_password z,
                          reset_password_token := reset_password_token z,
                          reset_password_expire := reset_password_expire z,
                          updated_at := updated_at z\<rparr>)"
      by (simp add: list_all2_Cons1)
    then obtain zs where
      zs: "users = ex_root # zs \<and>
           (\<exists>z. zs = [z, ex_eve] \<and>
                z = ex_bob\<lparr>hashed_password := hashed_password z,
                          reset_password_token := reset_password_token z,
                          reset_password_expire := reset_password_expire z,
                          updated_at := updated_at z\<rparr>)" ..
    from zs [THEN conjunct2] obtain z where
      z: "zs = [z, ex_eve] \<and>
          z = ex_bob\<lparr>hashed_password := hashed_password z,
                    reset_password_token := reset_password_token z,
                    reset_password_expire := reset_password_expire z,
                    updated_at := updated_at z\<rparr>" ..
    have us: "users = [ex_root, z, ex_eve]"
      by (simp only: zs [THEN conjunct1] z [THEN conjunct1])
    from arg_cong [OF z [THEN conjunct2], of u_id] have "u_id z = u_id ex_bob"
      by simp
    with n us have h: "hashed_password z = ''#Newpass1''"
      by simp
    show ?thesis
      by (rule exI [of _ z]) (simp only: us h simp_thms)
  qed
  note t = password_update_keeps_sessions [of ex_security "''A2''" ex_db "''Secret1''"
      "''Newpass1''" 100 "''reset:bob@x.io''"]
  from t [THEN conjunct1, rule_format, OF a] obtain d1 where
    x1: "change_password ex_security ''A2'' ''Secret1'' ''Newpass1'' 100 ex_db =
           (Inr ''Password changed successfully'', d1) \<and>
         password_frame ex_security (u_id ex_bob) ex_db d1 \<and>
         (\<forall>u\<in>set (users_table d1). u_id u = u_id ex_bob \<longrightarrow>
            hashed_password u = get_password_hash ex_security ''Newpass1'')" ..
  from t [THEN conjunct2, rule_format, OF b] obtain d2 where
    x2: "reset_password ex_security ''reset:bob@x.io'' ''Newpass1'' 100 ex_db =
           (Inr ''Password reset successfully'', d2) \<and>
         password_frame ex_security (u_id ex_bob) ex_db d2 \<and>
         (\<forall>u\<in>set (users_table d2). u_id u = u_id ex_bob \<longrightarrow>
            hashed_password u = get_password_hash ex_security ''Newpass1'')" ..
  note f1 = x1 [THEN conjunct2, THEN conjunct1]
  note f2 = x2 [THEN conjunct2, THEN conjunct1]
  note d1 = x1 [THEN conjunct1] f1 [THEN conjunct2, THEN conjunct1]
    f1 [THEN conjunct2, THEN conjunct2, THEN conjunct2, THEN conjunct2, THEN conjunct1,
        rule_format, of "''R2''" "JInt 2" 100]
  note d2 = x2 [THEN conjunct1] f2 [THEN conjunct2, THEN conjunct1]
    f2 [THEN conjunct2, THEN conjunct2, THEN conjunct2, THEN conjunct2, THEN conjunct1,
        rule_format, of "''R2''" "JInt 2" 100]
  from rows [OF f1 [THEN conjunct2, THEN conjunct2, THEN conjunct2, THEN conjunct1]
      x1 [THEN conjunct2, THEN conjunct2]]
  obtain b1 where
    y1: "users_table d1 = [ex_root, b1, ex_eve] \<and> hashed_password b1 = ''#Newpass1''" ..
  note b1 = y1 [THEN conjunct1] y1 [THEN conjunct2]
  from rows [OF f2 [THEN conjunct2, THEN conjunct2, THEN conjunct2, THEN conjunct1]
      x2 [THEN conjunct2, THEN conjunct2]]
  obtain b2 where
    y2: "users_table d2 = [ex_root, b2, ex_eve] \<and> hashed_password b2 = ''#Newpass1''" ..
  note b2 = y2 [THEN conjunct1] y2 [THEN conjunct2]
  have c1: "\<exists>d' bob'. change_password ex_security ''A2'' ''Secret1'' ''Newpass1'' 100 ex_db =
           (Inr ''Password changed successfully'', d') \<and>
         users_table d' = [ex_root, bob', ex_eve] \<and>
         hashed_password bob' = ''#Newpass1'' \<and>
         user_sessions_table d' = user_sessions_table ex_db \<and>
         find_valid ''R2'' (JInt 2) 100 d' = Some (ex_session 1 2 ''R2'')"
    by (rule exI [of _ d1], rule exI [of _ b1]) (simp only: d1 b1 before simp_thms)
  have c2: "\<exists>d' bob'. reset_password ex_security ''reset:bob@x.io'' ''Newpass1'' 100 ex_db =
           (Inr ''Password reset successfully'', d') \<and>
         users_table d' = [ex_root, bob', ex_eve] \<and>
         hashed_password bob' = ''#Newpass1'' \<and>
         user_sessions_table d' = user_sessions_table ex_db \<and>
         find_valid ''R2'' (JInt 2) 100 d' = Some (ex_session 1 2 ''R2'')"
    by (rule exI [of _ d2], rule exI [of _ b2]) (simp only: d2 b2 before simp_thms)
  show ?thesis by (intro conjI before c1 c2)
qed

section \<open>Deleting one's own account\<close>

lemma users_table_delete_users_row [simp]:
  "users_table (delete_users_row pk d) = filter (\<lambda>u. u_id u \<noteq> pk) (users_table d)"
  "user_sessions_table (delete_users_row pk d) =
     filter (\<lambda>s. user_id s \<noteq> pk) (user_sessions_table d)"
  by (simp_all add: delete_users_row_def)

text \<open>
  C7, as amended. A \<open>delete_user\<close> request of a caller who passes the gate for
  \<open>delete\<close>, with the caller's own id as target, is refused with status 400 and leaves
  the database as it is. The self-profile route \<open>delete_account\<close> refuses nothing: for
  every resolved caller, whatever the role, it deletes the caller's row and the sessions
  of the caller.
\<close>

theorem self_delete_only_refused_by_delete_user:
  "(\<forall>current_user.
      require_permission [''delete''] sec token d = Inr current_user \<longrightarrow>
      delete_user sec token (u_id current_user) d =
        (Inl (HTTPException HTTP_400_BAD_REQUEST ''Cannot delete your own account''), d)) \<and>
   (\<forall>current_user.
      get_current_active_user sec token d = Inr current_user \<longrightarrow>
      delete_account sec token d =
        (Inr ''Account deleted successfully'', delete_users_row (u_id current_user) d) \<and>
      (\<forall>u\<in>set (users_table (delete_users_row (u_id current_user) d)).
         u_id u \<noteq> u_id current_user) \<and>
      (\<forall>s\<in>set (user_sessions_table (delete_users_row (u_id current_user) d)).
         user_id s \<noteq> u_id current_user))"
  by (simp add: delete_user_def delete_account_def)

lemma ex_root_role [simp]: "role ex_root = ADMIN"
  by (simp add: ex_root_def ex_user_def)

text \<open>The administrator of the example at both routes.\<close>

theorem self_delete_only_refused_by_delete_user_witness:
  "require_permission [''delete''] ex_security ''A1'' ex_db = Inr ex_root \<and>
   delete_user ex_security ''A1'' 1 ex_db =
     (Inl (HTTPException HTTP_400_BAD_REQUEST ''Cannot delete your own account''), ex_db) \<and>
   fst (delete_account ex_security ''A1'' ex_db) = Inr ''Account deleted successfully'' \<and>
   users_table (snd (delete_account ex_security ''A1'' ex_db)) = [ex_bob, ex_eve]"
proof -
  have gate: "require_permission [''delete''] ex_security ''A1'' ex_db = Inr ex_root"
    by (simp add: require_permission_def permission_checker_def ex_permissions_def ex_read_def)
  have act: "get_current_active_user ex_security ''A1'' ex_db = Inr ex_root"
    by simp
  show ?thesis
    using self_delete_only_refused_by_delete_user [of ex_security "''A1''" ex_db] gate act
    by simp
qed

lemma ex_root_distinct [simp]: "ex_root \<noteq> ex_bob" "ex_root \<noteq> ex_eve"
proof -
  have "u_id ex_root \<noteq> u_id ex_bob" "u_id ex_root \<noteq> u_id ex_eve"
    by simp_all
  then show "ex_root \<noteq> ex_bob" "ex_root \<noteq> ex_eve"
    by fastforce+
qed

text \<open>
  C7, as stated, fails: the administrator of the example calls \<open>delete_account\<close> with a
  valid access token; the answer is the success message, not an error, and the
  administrator's row is gone.
\<close>

theorem self_profile_delete_counterexample:
  "role ex_root = ADMIN \<and>
   get_current_active_user ex_security ''A1'' ex_db = Inr ex_root \<and>
   ex_root \<in> set (users_table ex_db) \<and>
   fst (delete_account ex_security ''A1'' ex_db) = Inr ''Account deleted successfully'' \<and>
   ex_root \<notin> set (users_table (snd (delete_account ex_security ''A1'' ex_db)))"
  by (simp add: delete_account_def)

end
